theory Spec2Isabelle
  imports Main "HOL-Library.Product_Lexorder"
begin

section \<open>Typed errors (utils/error.utils.ts)\<close>

text \<open>
  An \<open>ApiError\<close> carries a message, an HTTP status code and a stable machine-readable
  code. A \<open>throw\<close> of the source is the \<open>Inl\<close> branch of a result \<open>ApiError + 'a\<close>.
  The optional \<open>errors\<close> array is never set on the paths modelled here and is left out.
\<close>

record ApiError =
  message :: string
  statusCode :: nat
  code :: string

definition newApiError :: "string \<Rightarrow> nat \<Rightarrow> ApiError" where
  \<comment> \<open>\<open>new ApiError(message, statusCode)\<close>: the code defaults to \<open>SERVER_ERROR\<close>\<close>
  "newApiError msg st = \<lparr>message = msg, statusCode = st, code = ''SERVER_ERROR''\<rparr>"

definition badRequest :: "string \<Rightarrow> string \<Rightarrow> ApiError" where
  "badRequest msg c = \<lparr>message = msg, statusCode = 400, code = c\<rparr>"

definition unauthorized :: "string \<Rightarrow> string \<Rightarrow> ApiError" where
  "unauthorized msg c = \<lparr>message = msg, statusCode = 401, code = c\<rparr>"

definition forbidden :: "string \<Rightarrow> string \<Rightarrow> ApiError" where
  "forbidden msg c = \<lparr>message = msg, statusCode = 403, code = c\<rparr>"

definition notFound :: "string \<Rightarrow> string \<Rightarrow> ApiError" where
  "notFound msg c = \<lparr>message = msg, statusCode = 404, code = c\<rparr>"

section \<open>JavaScript dates and strings\<close>

text \<open>
  A \<open>Date\<close> holds a time value, an integral number of milliseconds since the epoch of
  magnitude at most 8.64e15, or is an Invalid Date (time value NaN). Every relational
  comparison with an Invalid Date is false.
\<close>

datatype Date = TimeValue int | InvalidDate

definition msPerDay :: int where
  "msPerDay = 86400000"

definition maxTime :: int where
  "maxTime = 8640000000000000"

definition TimeClip :: "int \<Rightarrow> Date" where
  "TimeClip t = (if \<bar>t\<bar> \<le> maxTime then TimeValue t else InvalidDate)"

definition isNaN_getTime :: "Date \<Rightarrow> bool" where
  \<comment> \<open>\<open>isNaN(d.getTime())\<close>\<close>
  "isNaN_getTime d = (case d of InvalidDate \<Rightarrow> True | TimeValue t \<Rightarrow> False)"

text \<open>
  The local time zone is a parameter, given by the two offsets of ECMAScript:
  \<open>utc_offset t\<close> is the offset of local time from UTC at the instant \<open>t\<close>
  (\<open>LocalTZA(t, true)\<close>), and \<open>local_offset t\<close> is the offset by which the local time
  value \<open>t\<close> is read back as an instant (\<open>LocalTZA(t, false)\<close>). Both may vary with
  \<open>t\<close>, as they do in a zone with daylight saving; nothing is assumed about them.
\<close>

record TimeZone =
  utc_offset :: "int \<Rightarrow> int"
  local_offset :: "int \<Rightarrow> int"

definition LocalTime :: "TimeZone \<Rightarrow> int \<Rightarrow> int" where
  "LocalTime z t = t + utc_offset z t"

definition UTC :: "TimeZone \<Rightarrow> int \<Rightarrow> int" where
  "UTC z t = t - local_offset z t"

definition Day :: "int \<Rightarrow> int" where
  "Day t = t div msPerDay"

definition setHours0 :: "TimeZone \<Rightarrow> Date \<Rightarrow> Date" where
  \<comment> \<open>\<open>d.setHours(0, 0, 0, 0)\<close>: the instant at which the local day of \<open>d\<close> begins,
      \<open>TimeClip(UTC(MakeDate(Day(LocalTime(t)), 0)))\<close>\<close>
  "setHours0 z d =
     (case d of InvalidDate \<Rightarrow> InvalidDate
      | TimeValue t \<Rightarrow> TimeClip (UTC z (Day (LocalTime z t) * msPerDay)))"

definition setDate_plus :: "TimeZone \<Rightarrow> int \<Rightarrow> Date \<Rightarrow> Date" where
  \<comment> \<open>\<open>d.setDate(d.getDate() + days)\<close> for an integral \<open>days\<close>: \<open>MakeDay\<close> moves the
      local day number by \<open>days\<close> and the local time of day is kept, so the local time
      value grows by \<open>days\<close> days before it is read back as an instant\<close>
  "setDate_plus z days d =
     (case d of InvalidDate \<Rightarrow> InvalidDate
      | TimeValue t \<Rightarrow> TimeClip (UTC z (LocalTime z t + days * msPerDay)))"

fun date_lt :: "Date \<Rightarrow> Date \<Rightarrow> bool" where
  "date_lt (TimeValue a) (TimeValue b) = (a < b)"
| "date_lt _ _ = False"

fun date_le :: "Date \<Rightarrow> Date \<Rightarrow> bool" where
  "date_le (TimeValue a) (TimeValue b) = (a \<le> b)"
| "date_le _ _ = False"

definition date_ge :: "Date \<Rightarrow> Date \<Rightarrow> bool" where
  "date_ge a b = date_le b a"

definition local_day :: "TimeZone \<Rightarrow> int \<Rightarrow> int" where
  \<comment> \<open>the number of the local calendar day that holds the instant \<open>t\<close>\<close>
  "local_day z t = Day (LocalTime z t)"

text \<open>
  Strings are lists of code units. \<open>trim\<close> removes the white space and line terminators
  of ECMAScript that lie in the 8-bit range from both ends.
\<close>

definition is_white_space :: "char \<Rightarrow> bool" where
  "is_white_space c = (of_char c \<in> {9, 10, 11, 12, 13, 32, 160 :: nat})"

definition trim :: "string \<Rightarrow> string" where
  "trim s = rev (dropWhile is_white_space (rev (dropWhile is_white_space s)))"

section \<open>Task data (interfaces/task.interface.ts)\<close>

datatype TaskStatus = PENDING | IN_PROGRESS | COMPLETED | CANCELLED

fun TaskStatus_value :: "TaskStatus \<Rightarrow> string" where
  "TaskStatus_value PENDING = ''pending''"
| "TaskStatus_value IN_PROGRESS = ''in_progress''"
| "TaskStatus_value COMPLETED = ''completed''"
| "TaskStatus_value CANCELLED = ''cancelled''"

definition TaskStatus_values :: "TaskStatus list" where
  \<comment> \<open>\<open>Object.values(TaskStatus)\<close>\<close>
  "TaskStatus_values = [PENDING, IN_PROGRESS, COMPLETED, CANCELLED]"

definition as_TaskStatus :: "string \<Rightarrow> TaskStatus option" where
  \<comment> \<open>the member of the enum whose value is the string, if there is one\<close>
  "as_TaskStatus s = find (\<lambda>v. TaskStatus_value v = s) TaskStatus_values"

text \<open>
  A row of table \<open>tasks\<close> as the driver delivers it: ids are integers, \<open>due_date\<close>
  (column type DATE) and the two timestamps are milliseconds since the epoch.
\<close>

record TaskRow =
  task_id :: int
  user_id :: int
  category_id :: "int option"
  priority_id :: "int option"
  title :: string
  description :: "string option"
  due_date :: "int option"
  status :: TaskStatus
  created_at :: int
  updated_at :: int

record ITaskUpdate =
  title :: "string option"
  description :: "string option"
  category_id :: "int option"
  priority_id :: "int option"
  due_date :: "Date option"
  status :: "TaskStatus option"

text \<open>
  TypeScript types are structural: an object with more fields than \<open>ITaskCreate\<close> names
  is an \<open>ITaskCreate\<close> too (the controller spreads the whole request body into the
  payload). The functions on create payloads therefore take any extension of the
  record, and \<open>ITask\<close>, which has every field of \<open>ITaskCreate\<close>, is such an extension.
\<close>

record ITaskCreate =
  user_id :: int
  title :: string
  description :: "string option"
  category_id :: "int option"
  priority_id :: "int option"
  due_date :: "Date option"

record ITask = ITaskCreate +
  task_id :: int
  status :: TaskStatus
  created_at :: Date
  updated_at :: Date

section \<open>Task entity validator (models/task.model.ts)\<close>

definition validateCreate :: "'a ITaskCreate_scheme \<Rightarrow> ApiError + unit" where
  "validateCreate data =
     (if ITaskCreate.user_id data = 0 then
        Inl (badRequest ''User ID is required'' ''USER_ID_REQUIRED'')
      else if ITaskCreate.title data = [] \<or> length (trim (ITaskCreate.title data)) = 0 then
        Inl (badRequest ''Task title is required'' ''INVALID_TITLE'')
      else if length (ITaskCreate.title data) > 100 then
        Inl (badRequest ''Task title must be 100 characters or less'' ''INVALID_TITLE_LENGTH'')
      else if (case ITaskCreate.due_date data of None \<Rightarrow> False | Some d \<Rightarrow> isNaN_getTime d) then
        Inl (badRequest ''Invalid due date format'' ''INVALID_DUE_DATE'')
      else Inr ())"

definition no_keys :: "ITaskUpdate \<Rightarrow> bool" where
  \<comment> \<open>\<open>Object.keys(data).length === 0\<close>: no field is supplied\<close>
  "no_keys data =
     (ITaskUpdate.title data = None \<and> ITaskUpdate.description data = None \<and>
      ITaskUpdate.category_id data = None \<and> ITaskUpdate.priority_id data = None \<and>
      ITaskUpdate.due_date data = None \<and> ITaskUpdate.status data = None)"

definition validateUpdate :: "ITaskUpdate \<Rightarrow> ApiError + unit" where
  "validateUpdate data =
     (if no_keys data then
        Inl (badRequest ''No data provided for update'' ''NO_UPDATE_DATA'')
      else if (case ITaskUpdate.title data of None \<Rightarrow> False
               | Some t \<Rightarrow> length (trim t) = 0) then
        Inl (badRequest ''Task title cannot be empty'' ''INVALID_TITLE'')
      else if (case ITaskUpdate.title data of None \<Rightarrow> False
               | Some t \<Rightarrow> length t > 100) then
        Inl (badRequest ''Task title must be 100 characters or less'' ''INVALID_TITLE_LENGTH'')
      else if (case ITaskUpdate.due_date data of None \<Rightarrow> False
               | Some d \<Rightarrow> isNaN_getTime d) then
        Inl (badRequest ''Invalid due date format'' ''INVALID_DUE_DATE'')
      else if (case ITaskUpdate.status data of None \<Rightarrow> False
               | Some s \<Rightarrow> s \<notin> set TaskStatus_values) then
        Inl (badRequest ''Status must be one of: pending, in_progress, completed, cancelled''
               ''INVALID_STATUS'')
      else Inr ())"

definition fromDatabaseRow :: "TaskRow \<Rightarrow> ITask" where
  "fromDatabaseRow row =
     \<lparr>ITaskCreate.user_id = TaskRow.user_id row,
      ITaskCreate.title = TaskRow.title row,
      ITaskCreate.description =
        (case TaskRow.description row of Some s \<Rightarrow> (if s = [] then None else Some s)
         | None \<Rightarrow> None),
      ITaskCreate.category_id =
        (case TaskRow.category_id row of Some c \<Rightarrow> (if c = 0 then None else Some c)
         | None \<Rightarrow> None),
      ITaskCreate.priority_id =
        (case TaskRow.priority_id row of Some p \<Rightarrow> (if p = 0 then None else Some p)
         | None \<Rightarrow> None),
      ITaskCreate.due_date = map_option TimeClip (TaskRow.due_date row),
      ITask.task_id = TaskRow.task_id row,
      ITask.status = TaskRow.status row,
      ITask.created_at = TimeClip (TaskRow.created_at row),
      ITask.updated_at = TimeClip (TaskRow.updated_at row)\<rparr>"

section \<open>User data (interfaces/user.interface.ts)\<close>

text \<open>
  \<open>IUser\<close> is also the shape of a row of table \<open>users\<close>, which carries the column
  \<open>updated_at\<close> besides the fields the interface names.
\<close>

record IUser =
  user_id :: int
  username :: string
  email :: string
  password_hash :: string
  created_at :: Date
  role :: "string option"
  updated_at :: Date

section \<open>The persistence gateway\<close>

text \<open>
  The PostgreSQL database is modelled by its tables, as lists of rows in insertion
  order, the sequence that numbers new tasks, and the reading of the server's clock that
  \<open>CURRENT_TIMESTAMP\<close> and \<open>NOW()\<close> yield. Of \<open>categories\<close> and \<open>priorities\<close> only the
  keys matter here. A writing statement fails in one of two ways: a parameter is
  refused when it is bound (a text with a NUL character, an unreadable date), before
  anything is executed; or a constraint of the schema stops the execution (primary and
  foreign keys, uniqueness, column widths). A failed statement leaves the tables as they
  were; an \<open>INSERT\<close> that fails during execution has already drawn its number from the
  sequence. Reading statements are taken to succeed: loss of the connection, and a
  parameter that the server would refuse in a reading statement, are outside the model.
  Table \<open>task_assignments\<close> is not touched by any function modelled here and is
  left out.
\<close>

record Database =
  users :: "IUser list"
  tasks :: "TaskRow list"
  categories :: "int list"
  priorities :: "int list"
  tasks_task_id_seq :: int
  server_time :: int

definition pg_text :: "string \<Rightarrow> bool" where
  \<comment> \<open>a text parameter is accepted when it holds no NUL character\<close>
  "pg_text s = (CHR 0x00 \<notin> set s)"

definition pg_text_opt :: "string option \<Rightarrow> bool" where
  "pg_text_opt v = (case v of None \<Rightarrow> True | Some s \<Rightarrow> pg_text s)"

definition pg_varchar :: "nat \<Rightarrow> string \<Rightarrow> string option" where
  \<comment> \<open>storing into a \<open>VARCHAR(n)\<close> column: an over-long value is an error unless the
      excess is all spaces, which are cut off\<close>
  "pg_varchar n s =
     (if length s \<le> n then Some s
      else if list_all (\<lambda>c. c = CHR '' '') (drop n s) then Some (take n s)
      else None)"

definition pg_date :: "TimeZone \<Rightarrow> Date \<Rightarrow> int option" where
  \<comment> \<open>a \<open>Date\<close> bound to a \<open>DATE\<close> column: the driver writes it in local time and the
      column keeps its calendar day, which the driver reads back as the instant at which
      that local day begins; an Invalid Date is refused\<close>
  "pg_date z d =
     (case d of InvalidDate \<Rightarrow> None
      | TimeValue t \<Rightarrow> Some (UTC z (Day (LocalTime z t) * msPerDay)))"

definition assign_varchar :: "nat \<Rightarrow> string option \<Rightarrow> string option option" where
  \<comment> \<open>an optional value for a \<open>VARCHAR(n)\<close> column: \<open>None\<close> when the column rejects it,
      \<open>Some None\<close> when no value is given\<close>
  "assign_varchar n v =
     (case v of None \<Rightarrow> Some None | Some s \<Rightarrow> map_option Some (pg_varchar n s))"

definition assign_date :: "TimeZone \<Rightarrow> Date option \<Rightarrow> int option option" where
  \<comment> \<open>the same for a \<open>DATE\<close> column\<close>
  "assign_date z v =
     (case v of None \<Rightarrow> Some None | Some d \<Rightarrow> map_option Some (pg_date z d))"

definition fk_ok :: "int list \<Rightarrow> int option \<Rightarrow> bool" where
  \<comment> \<open>a nullable foreign key: NULL, or a key of the referenced table\<close>
  "fk_ok keys v = (case v of None \<Rightarrow> True | Some k \<Rightarrow> k \<in> set keys)"

definition insert_task ::
  "TimeZone \<Rightarrow> Database \<Rightarrow> 'a ITaskCreate_scheme \<Rightarrow> TaskStatus \<Rightarrow> TaskRow option \<times> Database" where
  \<comment> \<open>\<open>INSERT INTO tasks (user_id, title, description, category_id, priority_id,
      due_date, status) VALUES (...) RETURNING *\<close>: the returned row, or \<open>None\<close> when the
      statement fails, and the database afterwards\<close>
  "insert_task z db data st =
     (case assign_date z (ITaskCreate.due_date data) of
        None \<Rightarrow> (None, db)
      | Some due \<Rightarrow>
          if \<not> pg_text (ITaskCreate.title data) \<or> \<not> pg_text_opt (ITaskCreate.description data)
          then (None, db)
          else
            (let drawn = db\<lparr>tasks_task_id_seq := tasks_task_id_seq db + 1\<rparr> in
             case pg_varchar 100 (ITaskCreate.title data) of
               None \<Rightarrow> (None, drawn)
             | Some ttl \<Rightarrow>
                 if ITaskCreate.user_id data \<notin> set (map IUser.user_id (users db)) then
                   (None, drawn)
                 else if \<not> fk_ok (categories db) (ITaskCreate.category_id data) then
                   (None, drawn)
                 else if \<not> fk_ok (priorities db) (ITaskCreate.priority_id data) then
                   (None, drawn)
                 else if tasks_task_id_seq db \<in> set (map TaskRow.task_id (tasks db)) then
                   (None, drawn)
                 else
                   (let row = \<lparr>TaskRow.task_id = tasks_task_id_seq db,
                               TaskRow.user_id = ITaskCreate.user_id data,
                               TaskRow.category_id = ITaskCreate.category_id data,
                               TaskRow.priority_id = ITaskCreate.priority_id data,
                               TaskRow.title = ttl,
                               TaskRow.description = ITaskCreate.description data,
                               TaskRow.due_date = due,
                               TaskRow.status = st,
                               TaskRow.created_at = server_time db,
                               TaskRow.updated_at = server_time db\<rparr>
                    in (Some row, drawn\<lparr>tasks := tasks db @ [row]\<rparr>))))"

definition set_columns :: "ITaskUpdate \<Rightarrow> string option \<Rightarrow> int option \<Rightarrow> int \<Rightarrow> TaskRow \<Rightarrow> TaskRow" where
  \<comment> \<open>the \<open>SET\<close> list built by \<open>TaskRepository.update\<close>: one assignment for each supplied
      field, then \<open>updated_at = NOW()\<close>; \<open>ttl\<close> and \<open>due\<close> are the title and the due date
      as the columns store them\<close>
  "set_columns data ttl due now row =
     row\<lparr>TaskRow.title := (case ttl of Some t \<Rightarrow> t | None \<Rightarrow> TaskRow.title row),
         TaskRow.description :=
           (case ITaskUpdate.description data of Some d \<Rightarrow> Some d
            | None \<Rightarrow> TaskRow.description row),
         TaskRow.category_id :=
           (case ITaskUpdate.category_id data of Some c \<Rightarrow> Some c
            | None \<Rightarrow> TaskRow.category_id row),
         TaskRow.priority_id :=
           (case ITaskUpdate.priority_id data of Some p \<Rightarrow> Some p
            | None \<Rightarrow> TaskRow.priority_id row),
         TaskRow.due_date := (case due of Some d \<Rightarrow> Some d | None \<Rightarrow> TaskRow.due_date row),
         TaskRow.status :=
           (case ITaskUpdate.status data of Some s \<Rightarrow> s | None \<Rightarrow> TaskRow.status row),
         TaskRow.updated_at := now\<rparr>"

definition update_task ::
  "TimeZone \<Rightarrow> Database \<Rightarrow> int \<Rightarrow> ITaskUpdate \<Rightarrow> (TaskRow list \<times> Database) option" where
  \<comment> \<open>\<open>UPDATE tasks SET ..., updated_at = NOW() WHERE task_id = $n RETURNING *\<close>\<close>
  "update_task z db tid data =
     (case assign_date z (ITaskUpdate.due_date data) of
        None \<Rightarrow> None
      | Some due \<Rightarrow>
          if \<not> pg_text_opt (ITaskUpdate.title data) \<or>
             \<not> pg_text_opt (ITaskUpdate.description data) then None
          else if filter (\<lambda>r. TaskRow.task_id r = tid) (tasks db) = [] then Some ([], db)
          else
     (case assign_varchar 100 (ITaskUpdate.title data) of
        None \<Rightarrow> None
      | Some ttl \<Rightarrow>
          if \<not> fk_ok (categories db) (ITaskUpdate.category_id data) then None
          else if \<not> fk_ok (priorities db) (ITaskUpdate.priority_id data) then None
          else
            (let upd = set_columns data ttl due (server_time db)
             in Some (map upd (filter (\<lambda>r. TaskRow.task_id r = tid) (tasks db)),
                      db\<lparr>tasks := map (\<lambda>r. if TaskRow.task_id r = tid then upd r else r)
                                      (tasks db)\<rparr>))))"

definition update_task_status :: "Database \<Rightarrow> TaskStatus \<Rightarrow> int \<Rightarrow> TaskRow list \<times> Database" where
  \<comment> \<open>\<open>UPDATE tasks SET status = $1, updated_at = NOW() WHERE task_id = $2 RETURNING *\<close>\<close>
  "update_task_status db st tid =
     (let upd = (\<lambda>r. r\<lparr>TaskRow.status := st, TaskRow.updated_at := server_time db\<rparr>)
      in (map upd (filter (\<lambda>r. TaskRow.task_id r = tid) (tasks db)),
          db\<lparr>tasks := map (\<lambda>r. if TaskRow.task_id r = tid then upd r else r) (tasks db)\<rparr>))"

definition delete_task :: "Database \<Rightarrow> int \<Rightarrow> nat \<times> Database" where
  \<comment> \<open>\<open>DELETE FROM tasks WHERE task_id = $1 RETURNING task_id\<close>, with its row count\<close>
  "delete_task db tid =
     (length (filter (\<lambda>r. TaskRow.task_id r = tid) (tasks db)),
      db\<lparr>tasks := filter (\<lambda>r. TaskRow.task_id r \<noteq> tid) (tasks db)\<rparr>)"

definition order_key :: "TaskRow \<Rightarrow> (nat \<times> int) \<times> int" where
  \<comment> \<open>\<open>ORDER BY due_date ASC NULLS LAST, created_at DESC\<close>\<close>
  "order_key r =
     ((case TaskRow.due_date r of None \<Rightarrow> (1, 0) | Some d \<Rightarrow> (0, d)), - TaskRow.created_at r)"

section \<open>Task repository (repositories/taskRepository.ts)\<close>

definition TaskRepository_findById :: "Database \<Rightarrow> int \<Rightarrow> ITask option" where
  "TaskRepository_findById db tid =
     (case filter (\<lambda>r. TaskRow.task_id r = tid) (tasks db) of
        [] \<Rightarrow> None
      | row # rest \<Rightarrow> Some (fromDatabaseRow row))"

definition TaskRepository_create ::
  "TimeZone \<Rightarrow> Database \<Rightarrow> 'a ITaskCreate_scheme \<Rightarrow> (ApiError + ITask) \<times> Database" where
  "TaskRepository_create z db data =
     (case validateCreate data of
        Inl e \<Rightarrow> (Inl e, db)
      | Inr u \<Rightarrow>
          (case insert_task z db data PENDING of
             (None, db') \<Rightarrow> (Inl (newApiError ''Error creating task'' 500), db')
           | (Some row, db') \<Rightarrow> (Inr (fromDatabaseRow row), db')))"

definition TaskRepository_update ::
  "TimeZone \<Rightarrow> Database \<Rightarrow> int \<Rightarrow> ITaskUpdate \<Rightarrow> (ApiError + ITask option) \<times> Database" where
  "TaskRepository_update z db tid data =
     (case TaskRepository_findById db tid of
        None \<Rightarrow> (Inr None, db)
      | Some existingTask \<Rightarrow>
          (case validateUpdate data of
             Inl e \<Rightarrow> (Inl e, db)
           | Inr u \<Rightarrow>
               if no_keys data then (Inr (Some existingTask), db)
               else
                 (case update_task z db tid data of
                    None \<Rightarrow> (Inl (newApiError ''Error updating task'' 500), db)
                  | Some ([], db') \<Rightarrow> (Inl (newApiError ''Error updating task'' 500), db')
                  | Some (row # rest, db') \<Rightarrow> (Inr (Some (fromDatabaseRow row)), db'))))"

definition TaskRepository_delete :: "Database \<Rightarrow> int \<Rightarrow> (ApiError + bool) \<times> Database" where
  "TaskRepository_delete db tid =
     (case delete_task db tid of (rowCount, db') \<Rightarrow> (Inr (rowCount > 0), db'))"

definition TaskRepository_changeStatus ::
  "Database \<Rightarrow> int \<Rightarrow> string \<Rightarrow> (ApiError + ITask option) \<times> Database" where
  "TaskRepository_changeStatus db taskId st =
     (case as_TaskStatus st of
        None \<Rightarrow>
          (Inl (badRequest ''Status must be one of: pending, in_progress, completed, cancelled''
                  ''INVALID_STATUS''), db)
      | Some s \<Rightarrow>
          (case update_task_status db s taskId of
             ([], db') \<Rightarrow> (Inr None, db')
           | (row # rest, db') \<Rightarrow> (Inr (Some (fromDatabaseRow row)), db')))"

definition TaskRepository_findByUserId :: "Database \<Rightarrow> int \<Rightarrow> ITask list" where
  \<comment> \<open>\<open>findByUserId(userId)\<close> without query parameters, as the service calls it for the
      due-soon and overdue views; rows with equal sort keys keep their table order\<close>
  "TaskRepository_findByUserId db userId =
     map fromDatabaseRow
       (sort_key order_key (filter (\<lambda>r. TaskRow.user_id r = userId) (tasks db)))"

section \<open>Task lifecycle service (services/task.service.ts)\<close>

text \<open>
  \<open>new Date()\<close> reads the system clock. A function that reads it once takes the reading
  \<open>now\<close>; \<open>getTasksDueSoon\<close> reads it once for the cutoff and once more for every task
  that passes the cutoff test, so it takes the sequence \<open>clk\<close> of successive readings.
\<close>

definition authorizeTaskOperation :: "'a ITask_scheme \<Rightarrow> int \<Rightarrow> bool \<Rightarrow> ApiError + unit" where
  "authorizeTaskOperation task userId isAdmin =
     (if ITaskCreate.user_id task \<noteq> userId \<and> \<not> isAdmin then
        Inl (forbidden ''Not authorized to perform this action on this task'' ''FORBIDDEN'')
      else Inr ())"

definition validateDueDate :: "TimeZone \<Rightarrow> int \<Rightarrow> Date option \<Rightarrow> ApiError + unit" where
  "validateDueDate z now dueDate =
     (case dueDate of
        None \<Rightarrow> Inr ()
      | Some d \<Rightarrow>
          (let today = setHours0 z (TimeValue now);
               dueDateObj = setHours0 z d
           in if date_lt dueDateObj today then
                Inl (badRequest ''Due date cannot be in the past'' ''INVALID_DUE_DATE'')
              else Inr ()))"

definition createTask ::
  "TimeZone \<Rightarrow> int \<Rightarrow> Database \<Rightarrow> 'a ITaskCreate_scheme \<Rightarrow> (ApiError + ITask) \<times> Database" where
  "createTask z now db taskData =
     (case (case ITaskCreate.due_date taskData of
              Some d \<Rightarrow> validateDueDate z now (Some d)
            | None \<Rightarrow> Inr ()) of
        Inl e \<Rightarrow> (Inl e, db)
      | Inr u \<Rightarrow> TaskRepository_create z db taskData)"

definition updateTask ::
  "TimeZone \<Rightarrow> int \<Rightarrow> Database \<Rightarrow> int \<Rightarrow> ITaskUpdate \<Rightarrow> int \<Rightarrow> (ApiError + ITask option) \<times> Database" where
  "updateTask z now db taskId taskData userId =
     (case TaskRepository_findById db taskId of
        None \<Rightarrow> (Inr None, db)
      | Some existingTask \<Rightarrow>
          (case authorizeTaskOperation existingTask userId False of
             Inl e \<Rightarrow> (Inl e, db)
           | Inr u \<Rightarrow>
               (case (case ITaskUpdate.due_date taskData of
                        Some d \<Rightarrow> validateDueDate z now (Some d)
                      | None \<Rightarrow> Inr ()) of
                  Inl e \<Rightarrow> (Inl e, db)
                | Inr u \<Rightarrow> TaskRepository_update z db taskId taskData)))"

definition deleteTask :: "Database \<Rightarrow> int \<Rightarrow> int \<Rightarrow> (ApiError + bool) \<times> Database" where
  "deleteTask db taskId userId =
     (case TaskRepository_findById db taskId of
        None \<Rightarrow> (Inr False, db)
      | Some existingTask \<Rightarrow>
          (case authorizeTaskOperation existingTask userId False of
             Inl e \<Rightarrow> (Inl e, db)
           | Inr u \<Rightarrow> TaskRepository_delete db taskId))"

definition changeTaskStatus ::
  "Database \<Rightarrow> int \<Rightarrow> string \<Rightarrow> int \<Rightarrow> (ApiError + ITask option) \<times> Database" where
  "changeTaskStatus db taskId st userId =
     (case TaskRepository_findById db taskId of
        None \<Rightarrow> (Inr None, db)
      | Some existingTask \<Rightarrow>
          (case authorizeTaskOperation existingTask userId False of
             Inl e \<Rightarrow> (Inl e, db)
           | Inr u \<Rightarrow>
               if as_TaskStatus st = None then
                 (Inl (badRequest
                         ''Status must be one of: pending, in_progress, completed, cancelled''
                         ''INVALID_STATUS''), db)
               else TaskRepository_changeStatus db taskId st))"

fun dueSoon_filter :: "(nat \<Rightarrow> int) \<Rightarrow> nat \<Rightarrow> Date \<Rightarrow> ITask list \<Rightarrow> ITask list" where
  "dueSoon_filter clk k cutoffDate [] = []"
| "dueSoon_filter clk k cutoffDate (task # rest) =
     (case ITaskCreate.due_date task of
        None \<Rightarrow> dueSoon_filter clk k cutoffDate rest
      | Some dueDate \<Rightarrow>
          if ITask.status task = COMPLETED then dueSoon_filter clk k cutoffDate rest
          else if \<not> date_le dueDate cutoffDate then dueSoon_filter clk k cutoffDate rest
          else if date_ge dueDate (TimeValue (clk k)) then
            task # dueSoon_filter clk (Suc k) cutoffDate rest
          else dueSoon_filter clk (Suc k) cutoffDate rest)"

definition getTasksDueSoon ::
  "TimeZone \<Rightarrow> Database \<Rightarrow> (nat \<Rightarrow> int) \<Rightarrow> int \<Rightarrow> int \<Rightarrow> ITask list" where
  \<comment> \<open>\<open>days\<close> is an integral number, as the controller passes it (\<open>parseInt\<close> of the
      query parameter, or 3)\<close>
  "getTasksDueSoon z db clk userId days =
     (let userTasks = TaskRepository_findByUserId db userId;
          cutoffDate = setDate_plus z days (TimeValue (clk 0))
      in dueSoon_filter clk 1 cutoffDate userTasks)"

definition overdue :: "Date \<Rightarrow> ITask \<Rightarrow> bool" where
  \<comment> \<open>the filter callback of \<open>getOverdueTasks\<close>\<close>
  "overdue today task =
     (case ITaskCreate.due_date task of
        None \<Rightarrow> False
      | Some dueDate \<Rightarrow>
          if ITask.status task = COMPLETED then False else date_lt dueDate today)"

definition getOverdueTasks :: "Database \<Rightarrow> int \<Rightarrow> int \<Rightarrow> ITask list" where
  "getOverdueTasks db now userId =
     (let userTasks = TaskRepository_findByUserId db userId;
          today = TimeValue now
      in filter (overdue today) userTasks)"

section \<open>Password strength (utils/password.utils.ts)\<close>

definition special_characters :: string where
  \<comment> \<open>the character class of the last test: the punctuation listed in the regular
      expression; apostrophe, double quote and backslash are given by their codes\<close>
  "special_characters =
     ''!@#$%^&*()_+-=[]{};:|,.<>/?'' @ [CHR 0x27, CHR 0x22, CHR 0x5C]"

definition in_range :: "nat \<Rightarrow> nat \<Rightarrow> char \<Rightarrow> bool" where
  "in_range lo hi c = (lo \<le> of_char c \<and> of_char c \<le> hi)"

definition validatePasswordStrength :: "string \<Rightarrow> ApiError + bool" where
  "validatePasswordStrength password =
     (if length password < 8 then
        Inl (badRequest ''Password must be at least 8 characters long'' ''PASSWORD_TOO_SHORT'')
      else if \<not> list_ex (in_range 65 90) password then
        Inl (badRequest ''Password must contain at least one uppercase letter''
               ''PASSWORD_NEEDS_UPPERCASE'')
      else if \<not> list_ex (in_range 97 122) password then
        Inl (badRequest ''Password must contain at least one lowercase letter''
               ''PASSWORD_NEEDS_LOWERCASE'')
      else if \<not> list_ex (in_range 48 57) password then
        Inl (badRequest ''Password must contain at least one number'' ''PASSWORD_NEEDS_NUMBER'')
      else if \<not> list_ex (\<lambda>c. c \<in> set special_characters) password then
        Inl (badRequest ''Password must contain at least one special character''
               ''PASSWORD_NEEDS_SPECIAL'')
      else Inr True)"

definition validatePassword :: "string \<Rightarrow> ApiError + bool" where
  \<comment> \<open>the check against common passwords is commented out in the source\<close>
  "validatePassword password =
     (case validatePasswordStrength password of Inl e \<Rightarrow> Inl e | Inr b \<Rightarrow> Inr True)"

section \<open>External collaborators: password hashing and token signing\<close>

text \<open>
  The libraries \<open>bcryptjs\<close> and \<open>jsonwebtoken\<close> are parameters of the model. \<open>bcrypt_hash\<close>
  stands for hashing with whatever salt is drawn; nothing is assumed about how it
  relates to \<open>bcrypt_compare\<close>. \<open>sign\<close> returns \<open>None\<close> where \<open>jwt.sign\<close> throws.
\<close>

record Bcrypt =
  bcrypt_compare :: "string \<Rightarrow> string \<Rightarrow> bool"
  bcrypt_hash :: "string \<Rightarrow> string"

record IUserTokenPayload =
  id' :: int
  username :: string
  email :: string
  role :: "string option"

record Jwt =
  SECRET :: string
  REFRESH_SECRET :: string
  sign :: "IUserTokenPayload \<Rightarrow> string \<Rightarrow> string option"

record Tokens =
  accessToken :: string
  refreshToken :: string

definition generateTokens :: "Jwt \<Rightarrow> IUserTokenPayload \<Rightarrow> Tokens option" where
  "generateTokens jwt payload =
     (case sign jwt payload (SECRET jwt) of
        None \<Rightarrow> None
      | Some a \<Rightarrow>
          (case sign jwt payload (REFRESH_SECRET jwt) of
             None \<Rightarrow> None
           | Some r \<Rightarrow> Some \<lparr>accessToken = a, refreshToken = r\<rparr>))"

section \<open>User repository (repositories/userRepository.ts)\<close>

record Partial_IUser =
  user_id :: "int option"
  username :: "string option"
  email :: "string option"
  password_hash :: "string option"
  created_at :: "Date option"
  role :: "string option"

definition truthy :: "string option \<Rightarrow> string option" where
  \<comment> \<open>\<open>if (s)\<close> on an optional string: taken when the string is present and not empty\<close>
  "truthy s = (case s of None \<Rightarrow> None | Some v \<Rightarrow> (if v = [] then None else Some v))"

definition UserRepository_findById :: "Database \<Rightarrow> int \<Rightarrow> IUser option" where
  "UserRepository_findById db uid = find (\<lambda>u. IUser.user_id u = uid) (users db)"

definition UserRepository_findByEmail :: "Database \<Rightarrow> string \<Rightarrow> IUser option" where
  "UserRepository_findByEmail db e = find (\<lambda>u. IUser.email u = e) (users db)"



definition set_user_columns ::
  "string option \<Rightarrow> string option \<Rightarrow> string option \<Rightarrow> int \<Rightarrow> IUser \<Rightarrow> IUser" where
  "set_user_columns n e r now u =
     u\<lparr>IUser.username := (case n of Some v \<Rightarrow> v | None \<Rightarrow> IUser.username u),
       IUser.email := (case e of Some v \<Rightarrow> v | None \<Rightarrow> IUser.email u),
       IUser.role := (case r of Some v \<Rightarrow> Some v | None \<Rightarrow> IUser.role u),
       IUser.updated_at := TimeClip now\<rparr>"




definition update_user_password :: "Database \<Rightarrow> string \<Rightarrow> int \<Rightarrow> (nat \<times> Database) option" where
  \<comment> \<open>\<open>UPDATE users SET password_hash = $1, updated_at = NOW() WHERE user_id = $2
      RETURNING user_id\<close>, with its row count\<close>
  "update_user_password db h uid =
     (if \<not> pg_text h then None
      else if filter (\<lambda>u. IUser.user_id u = uid) (users db) = [] then Some (0, db)
      else
        (case pg_varchar 255 h of
           None \<Rightarrow> None
         | Some hv \<Rightarrow>
             (let upd = (\<lambda>u. u\<lparr>IUser.password_hash := hv,
                                 IUser.updated_at := TimeClip (server_time db)\<rparr>)
              in Some (length (filter (\<lambda>u. IUser.user_id u = uid) (users db)),
                       db\<lparr>users := map (\<lambda>u. if IUser.user_id u = uid then upd u else u)
                                       (users db)\<rparr>))))"

definition UserRepository_changePassword ::
  "Bcrypt \<Rightarrow> Database \<Rightarrow> int \<Rightarrow> string \<Rightarrow> (ApiError + bool) \<times> Database" where
  "UserRepository_changePassword bc db userId newPassword =
     (case validatePassword newPassword of
        Inl e \<Rightarrow> (Inl e, db)
      | Inr b \<Rightarrow>
          (case update_user_password db (bcrypt_hash bc newPassword) userId of
             None \<Rightarrow> (Inl (newApiError ''Error changing password'' 500), db)
           | Some (rowCount, db') \<Rightarrow> (Inr (rowCount > 0), db')))"

section \<open>User account service (services/user.service.ts)\<close>

record IUserLogin =
  email :: string
  password :: string

record UserWithoutPassword =
  user_id :: int
  username :: string
  email :: string
  created_at :: Date
  role :: "string option"
  updated_at :: Date

definition withoutPassword :: "IUser \<Rightarrow> UserWithoutPassword" where
  \<comment> \<open>\<open>const { password_hash, ...userWithoutPassword } = user\<close>\<close>
  "withoutPassword u =
     \<lparr>UserWithoutPassword.user_id = IUser.user_id u,
      UserWithoutPassword.username = IUser.username u,
      UserWithoutPassword.email = IUser.email u,
      UserWithoutPassword.created_at = IUser.created_at u,
      UserWithoutPassword.role = IUser.role u,
      UserWithoutPassword.updated_at = IUser.updated_at u\<rparr>"

record LoginResult =
  user :: UserWithoutPassword
  accessToken :: string
  refreshToken :: string

definition login :: "Bcrypt \<Rightarrow> Jwt \<Rightarrow> Database \<Rightarrow> IUserLogin \<Rightarrow> ApiError + LoginResult" where
  "login bc jwt db loginData =
     (case UserRepository_findByEmail db (IUserLogin.email loginData) of
        None \<Rightarrow> Inl (unauthorized ''Invalid credentials'' ''INVALID_CREDENTIALS'')
      | Some u \<Rightarrow>
          if \<not> bcrypt_compare bc (IUserLogin.password loginData) (IUser.password_hash u) then
            Inl (unauthorized ''Invalid credentials'' ''INVALID_CREDENTIALS'')
          else
            (case generateTokens jwt
                    \<lparr>id' = IUser.user_id u,
                     IUserTokenPayload.username = IUser.username u,
                     IUserTokenPayload.email = IUser.email u,
                     IUserTokenPayload.role = IUser.role u\<rparr> of
               None \<Rightarrow> Inl (newApiError ''Error logging in user'' 500)
             | Some tokens \<Rightarrow>
                 Inr \<lparr>user = withoutPassword u,
                      LoginResult.accessToken = Tokens.accessToken tokens,
                      LoginResult.refreshToken = Tokens.refreshToken tokens\<rparr>))"

definition strip_role :: "bool \<Rightarrow> Partial_IUser \<Rightarrow> Partial_IUser" where
  \<comment> \<open>\<open>if (userData.role && !isAdmin) { delete userData.role; }\<close>\<close>
  "strip_role isAdmin userData =
     (if truthy (Partial_IUser.role userData) \<noteq> None \<and> \<not> isAdmin then
        userData\<lparr>Partial_IUser.role := None\<rparr>
      else userData)"


definition changePassword ::
  "Bcrypt \<Rightarrow> Database \<Rightarrow> int \<Rightarrow> string \<Rightarrow> string \<Rightarrow> (ApiError + bool) \<times> Database" where
  "changePassword bc db userId currentPassword newPassword =
     (case UserRepository_findById db userId of
        None \<Rightarrow> (Inl (notFound ''User not found'' ''USER_NOT_FOUND''), db)
      | Some u \<Rightarrow>
          if \<not> bcrypt_compare bc currentPassword (IUser.password_hash u) then
            (Inl (badRequest ''Current password is incorrect'' ''INVALID_CURRENT_PASSWORD''), db)
          else
            (case validatePassword newPassword of
               Inl e \<Rightarrow> (Inl e, db)
             | Inr b \<Rightarrow>
                 if currentPassword = newPassword then
                   (Inl (badRequest ''New password must be different from current password''
                           ''PASSWORD_SAME''), db)
                 else UserRepository_changePassword bc db userId newPassword))"

section \<open>Notions the statements below use\<close>

definition fixed_clock :: "int \<Rightarrow> nat \<Rightarrow> int" where
  \<comment> \<open>a clock that reads \<open>now\<close> at every reading: a fixed evaluation time\<close>
  "fixed_clock now k = now"

definition error_code :: "ApiError + 'a \<Rightarrow> string option" where
  \<comment> \<open>the code of the error a call failed with, if it failed\<close>
  "error_code r = (case r of Inl e \<Rightarrow> Some (code e) | Inr v \<Rightarrow> None)"

definition error_status :: "ApiError + 'a \<Rightarrow> nat option" where
  \<comment> \<open>the status code of the error a call failed with, if it failed\<close>
  "error_status r = (case r of Inl e \<Rightarrow> Some (statusCode e) | Inr v \<Rightarrow> None)"

definition fixed_zone :: "int \<Rightarrow> TimeZone" where
  \<comment> \<open>a zone whose offset from UTC never changes\<close>
  "fixed_zone c = \<lparr>utc_offset = (\<lambda>t. c), local_offset = (\<lambda>t. c)\<rparr>"

definition midnight :: "TimeZone \<Rightarrow> int \<Rightarrow> int" where
  \<comment> \<open>the instant at which the local day with number \<open>dn\<close> begins\<close>
  "midnight z dn = UTC z (dn * msPerDay)"

definition midnights_in_order :: "TimeZone \<Rightarrow> int \<Rightarrow> bool" where
  \<comment> \<open>the local midnights that begin the day before the local day of \<open>now\<close> and that day
      itself are representable dates, and the first lies before the second\<close>
  "midnights_in_order z now =
     (\<bar>midnight z (local_day z now - 1)\<bar> \<le> maxTime \<and>
      \<bar>midnight z (local_day z now)\<bar> \<le> maxTime \<and>
      midnight z (local_day z now - 1) < midnight z (local_day z now))"


definition effective_update :: "Partial_IUser \<Rightarrow> Partial_IUser" where
  \<comment> \<open>what is left of a profile update when everything but a non-empty username and a
      non-empty email is taken away\<close>
  "effective_update ud =
     \<lparr>Partial_IUser.user_id = None,
      Partial_IUser.username = truthy (Partial_IUser.username ud),
      Partial_IUser.email = truthy (Partial_IUser.email ud),
      Partial_IUser.password_hash = None,
      Partial_IUser.created_at = None,
      Partial_IUser.role = None\<rparr>"


definition overdue_spec :: "int \<Rightarrow> ITask \<Rightarrow> bool" where
  "overdue_spec now t =
     (case ITaskCreate.due_date t of
        Some (TimeValue x) \<Rightarrow> ITask.status t \<noteq> COMPLETED \<and> x < now
      | Some InvalidDate \<Rightarrow> False
      | None \<Rightarrow> False)"

section \<open>Example data\<close>

text \<open>
  A small database on which the functions are evaluated: three users (password hashes
  are written \<open>hash:\<close> followed by the password, and the example hash check accepts
  exactly that), and eight tasks placed around the instant \<open>example_now\<close>, seven of them
  owned by user 1. The example zone has daylight saving: local time is two hours east of
  UTC until 2023-10-29 01:00 UTC and one hour east of it from then on, as in central
  Europe; local times before 03:00 of that day are read with the earlier offset.
  \<open>example_now\<close> is 2023-11-14 23:13:20 local time; \<open>example_dst_now\<close> is 2023-10-28
  00:30 local time, the day before the change.
\<close>

definition example_now :: int where
  "example_now = 1700000000000"

definition example_dst_now :: int where
  "example_dst_now = 1698445800000"

definition example_zone :: TimeZone where
  "example_zone =
     \<lparr>utc_offset = (\<lambda>t. if t < 1698541200000 then 7200000 else 3600000),
      local_offset = (\<lambda>t. if t < 1698548400000 then 7200000 else 3600000)\<rparr>"

definition example_user :: "int \<Rightarrow> string \<Rightarrow> string \<Rightarrow> string \<Rightarrow> IUser" where
  "example_user uid name pw r =
     \<lparr>IUser.user_id = uid, IUser.username = name, IUser.email = name @ ''@example.com'',
      IUser.password_hash = ''hash:'' @ pw, IUser.created_at = TimeValue 1690000000000,
      IUser.role = Some r, IUser.updated_at = TimeValue 1690000000000\<rparr>"

definition example_row :: "int \<Rightarrow> int \<Rightarrow> int \<Rightarrow> TaskStatus \<Rightarrow> TaskRow" where
  "example_row tid uid due st =
     \<lparr>TaskRow.task_id = tid, TaskRow.user_id = uid, TaskRow.category_id = None,
      TaskRow.priority_id = None, TaskRow.title = ''Review code'',
      TaskRow.description = None, TaskRow.due_date = Some due, TaskRow.status = st,
      TaskRow.created_at = 1699000000000 + tid, TaskRow.updated_at = 1699000000000 + tid\<rparr>"

definition example_db :: Database where
  "example_db =
     \<lparr>users = [example_user 1 ''alice'' ''Alice123!'' ''user'',
               example_user 2 ''bob'' ''Bob45678!'' ''admin'',
               example_user 3 ''carol'' ''weak'' ''user''],
      tasks = [example_row 1 1 1700086400000 IN_PROGRESS,
               example_row 2 1 1700432000000 CANCELLED,
               example_row 3 1 1701209600000 PENDING,
               example_row 4 1 1700086400000 COMPLETED,
               example_row 5 1 1699913600000 PENDING,
               example_row 6 1 1699395200000 PENDING,
               example_row 7 1 1699913600000 COMPLETED,
               example_row 8 2 1700086400000 PENDING],
      categories = [1, 2],
      priorities = [1, 2, 3],
      tasks_task_id_seq = 9,
      server_time = 1700000000000\<rparr>"

definition example_bcrypt :: Bcrypt where
  "example_bcrypt =
     \<lparr>bcrypt_compare = (\<lambda>p h. h = ''hash:'' @ p), bcrypt_hash = (\<lambda>p. ''hash:'' @ p)\<rparr>"

definition example_jwt :: Jwt where
  "example_jwt =
     \<lparr>SECRET = ''s1'', REFRESH_SECRET = ''s2'',
      sign = (\<lambda>p k. Some (k @ '':'' @ IUserTokenPayload.username p))\<rparr>"

definition example_payload :: ITask where
  \<comment> \<open>a create payload that also carries a status, an id and timestamps\<close>
  "example_payload =
     \<lparr>ITaskCreate.user_id = 1, ITaskCreate.title = ''Complete project report'',
      ITaskCreate.description = Some ''Quarterly figures'', ITaskCreate.category_id = Some 1,
      ITaskCreate.priority_id = Some 2,
      ITaskCreate.due_date = Some (TimeValue 1700086400000),
      ITask.task_id = 77, ITask.status = COMPLETED,
      ITask.created_at = TimeValue 0, ITask.updated_at = TimeValue 0\<rparr>"

definition example_created_row :: TaskRow where
  \<comment> \<open>the row that creating \<open>example_payload\<close> in \<open>example_db\<close> stores\<close>
  "example_created_row =
     \<lparr>TaskRow.task_id = 9, TaskRow.user_id = 1, TaskRow.category_id = Some 1,
      TaskRow.priority_id = Some 2, TaskRow.title = ''Complete project report'',
      TaskRow.description = Some ''Quarterly figures'',
      TaskRow.due_date = Some 1700002800000, TaskRow.status = PENDING,
      TaskRow.created_at = 1700000000000, TaskRow.updated_at = 1700000000000\<rparr>"

definition example_update :: ITaskUpdate where
  "example_update =
     \<lparr>ITaskUpdate.title = Some ''Updated Task'', ITaskUpdate.description = None,
      ITaskUpdate.category_id = None, ITaskUpdate.priority_id = None,
      ITaskUpdate.due_date = None, ITaskUpdate.status = None\<rparr>"

definition example_user_update :: Partial_IUser where
  \<comment> \<open>a profile update that also asks for the admin role and a new password hash\<close>
  "example_user_update =
     \<lparr>Partial_IUser.user_id = None, Partial_IUser.username = Some ''alice2'',
      Partial_IUser.email = Some ''alice2@example.com'',
      Partial_IUser.password_hash = Some ''hash:other'',
      Partial_IUser.created_at = None, Partial_IUser.role = Some ''admin''\<rparr>"

definition example_updated_user :: IUser where
  \<comment> \<open>the row of user 1 after \<open>example_user_update\<close>\<close>
  "example_updated_user =
     \<lparr>IUser.user_id = 1, IUser.username = ''alice2'', IUser.email = ''alice2@example.com'',
      IUser.password_hash = ''hash:Alice123!'', IUser.created_at = TimeValue 1690000000000,
      IUser.role = Some ''user'', IUser.updated_at = TimeValue 1700000000000\<rparr>"

definition example_dst_db :: Database where
  \<comment> \<open>two tasks of user 1 around the end of daylight saving: the first is due 3 days and
      30 minutes after \<open>example_dst_now\<close>, the second 3 days, 1 hour and 1 second after it\<close>
  "example_dst_db =
     \<lparr>users = [example_user 1 ''alice'' ''Alice123!'' ''user''],
      tasks = [example_row 1 1 1698706800000 PENDING,
               example_row 2 1 1698708601000 PENDING],
      categories = [],
      priorities = [],
      tasks_task_id_seq = 3,
      server_time = 1698445800000\<rparr>"

definition example_hash_update :: Partial_IUser where
  \<comment> \<open>a profile update that supplies a password hash and asks for the admin role\<close>
  "example_hash_update =
     \<lparr>Partial_IUser.user_id = None, Partial_IUser.username = None,
      Partial_IUser.email = None, Partial_IUser.password_hash = Some ''hash:other'',
      Partial_IUser.created_at = None, Partial_IUser.role = Some ''admin''\<rparr>"

section \<open>Auxiliary facts\<close>

subsection \<open>Errors\<close>

lemma statusCode_badRequest: "statusCode (badRequest m c) = 400"
  by (simp add: badRequest_def)

lemma code_badRequest: "code (badRequest m c) = c"
  by (simp add: badRequest_def)

subsection \<open>Rows and lists\<close>

lemma fromDatabaseRow_simps [simp]:
  "ITaskCreate.user_id (fromDatabaseRow r) = TaskRow.user_id r"
  "ITask.status (fromDatabaseRow r) = TaskRow.status r"
  "ITask.task_id (fromDatabaseRow r) = TaskRow.task_id r"
  "ITaskCreate.due_date (fromDatabaseRow r) = map_option TimeClip (TaskRow.due_date r)"
  by (simp_all add: fromDatabaseRow_def)

lemma set_findByUserId:
  "set (TaskRepository_findByUserId db userId) =
     {t \<in> fromDatabaseRow ` set (tasks db). ITaskCreate.user_id t = userId}"
  by (auto simp: TaskRepository_findByUserId_def)



subsection \<open>The local day of a time value\<close>

lemma date_lt_irrefl: "\<not> date_lt a a"
  by (cases a) simp_all

lemma setHours0_midnight:
  "setHours0 z (TimeValue t) = TimeClip (midnight z (local_day z t))"
  by (simp add: setHours0_def midnight_def local_day_def)

lemma validateDueDate_previous_day:
  assumes "local_day z y = local_day z now - 1" "midnights_in_order z now"
  shows "validateDueDate z now (Some (TimeValue y)) =
           Inl (badRequest ''Due date cannot be in the past'' ''INVALID_DUE_DATE'')"
  using assms
  by (simp add: validateDueDate_def setHours0_midnight midnights_in_order_def TimeClip_def)

lemma validateDueDate_same_day:
  assumes "local_day z x = local_day z now"
  shows "validateDueDate z now (Some (TimeValue x)) = Inr ()"
  using assms
  by (simp add: validateDueDate_def setHours0_midnight date_lt_irrefl)

lemma fixed_zone_midnights_in_order:
  assumes "\<bar>now\<bar> \<le> maxTime - 2 * msPerDay"
  shows "midnights_in_order (fixed_zone c) now"
proof -
  let ?dn = "(now + c) div msPerDay"
  have split: "?dn * msPerDay + (now + c) mod msPerDay = now + c"
    by (rule div_mult_mod_eq)
  have "0 \<le> (now + c) mod msPerDay" "(now + c) mod msPerDay < msPerDay"
    by (simp_all add: msPerDay_def)
  with split have b: "now - msPerDay < ?dn * msPerDay - c" "?dn * msPerDay - c \<le> now"
    by linarith+
  have m: "midnight (fixed_zone c) ?dn = ?dn * msPerDay - c"
          "midnight (fixed_zone c) (?dn - 1) = ?dn * msPerDay - c - msPerDay"
    by (simp_all add: midnight_def UTC_def fixed_zone_def algebra_simps)
  have d: "local_day (fixed_zone c) now = ?dn"
    by (simp add: local_day_def Day_def LocalTime_def fixed_zone_def)
  have pos: "0 < msPerDay" by (simp add: msPerDay_def)
  show ?thesis
    unfolding midnights_in_order_def d m using b assms pos by linarith
qed


subsection \<open>Where the code \<open>INVALID_DUE_DATE\<close> can come from\<close>

lemma validateCreate_code:
  "validateCreate data = Inl e \<Longrightarrow> code e = ''INVALID_DUE_DATE'' \<Longrightarrow>
     (\<exists>d. ITaskCreate.due_date data = Some d \<and> isNaN_getTime d)"
  by (auto simp: validateCreate_def badRequest_def split: if_splits option.splits)

lemma validateUpdate_code:
  "validateUpdate data = Inl e \<Longrightarrow> code e = ''INVALID_DUE_DATE'' \<Longrightarrow>
     (\<exists>d. ITaskUpdate.due_date data = Some d \<and> isNaN_getTime d)"
  by (auto simp: validateUpdate_def badRequest_def split: if_splits option.splits)

lemma TaskRepository_create_code:
  "TaskRepository_create z db data = (Inl e, db') \<Longrightarrow> code e = ''INVALID_DUE_DATE'' \<Longrightarrow>
     (\<exists>d. ITaskCreate.due_date data = Some d \<and> isNaN_getTime d)"
  by (auto simp: TaskRepository_create_def newApiError_def
      split: sum.splits option.splits prod.splits dest: validateCreate_code)

lemma TaskRepository_update_code:
  "TaskRepository_update z db tid data = (Inl e, db') \<Longrightarrow> code e = ''INVALID_DUE_DATE'' \<Longrightarrow>
     (\<exists>d. ITaskUpdate.due_date data = Some d \<and> isNaN_getTime d)"
  by (auto simp: TaskRepository_update_def newApiError_def
      split: sum.splits option.splits if_splits list.splits prod.splits
      dest: validateUpdate_code)

lemma createTask_current_day_code:
  assumes "local_day z x = local_day z now"
  shows "error_code (fst (createTask z now db
           (taskData\<lparr>ITaskCreate.due_date := Some (TimeValue x)\<rparr>))) \<noteq> Some ''INVALID_DUE_DATE''"
proof
  assume c: "error_code (fst (createTask z now db
           (taskData\<lparr>ITaskCreate.due_date := Some (TimeValue x)\<rparr>))) = Some ''INVALID_DUE_DATE''"
  then obtain e db' where
    r: "TaskRepository_create z db (taskData\<lparr>ITaskCreate.due_date := Some (TimeValue x)\<rparr>) = (Inl e, db')"
    and e: "code e = ''INVALID_DUE_DATE''"
    by (cases "TaskRepository_create z db (taskData\<lparr>ITaskCreate.due_date := Some (TimeValue x)\<rparr>)")
       (auto simp: createTask_def validateDueDate_same_day [OF assms] error_code_def
          split: sum.splits)
  from TaskRepository_create_code [OF r e] show False
    by (simp add: isNaN_getTime_def)
qed

lemma updateTask_current_day_code:
  assumes "local_day z x = local_day z now"
  shows "error_code (fst (updateTask z now db taskId
           (upd\<lparr>ITaskUpdate.due_date := Some (TimeValue x)\<rparr>) callerId)) \<noteq> Some ''INVALID_DUE_DATE''"
proof
  assume c: "error_code (fst (updateTask z now db taskId
           (upd\<lparr>ITaskUpdate.due_date := Some (TimeValue x)\<rparr>) callerId)) = Some ''INVALID_DUE_DATE''"
  then obtain e db' where
    r: "TaskRepository_update z db taskId (upd\<lparr>ITaskUpdate.due_date := Some (TimeValue x)\<rparr>) = (Inl e, db')"
    and e: "code e = ''INVALID_DUE_DATE''"
    by (cases "TaskRepository_update z db taskId (upd\<lparr>ITaskUpdate.due_date := Some (TimeValue x)\<rparr>)")
       (auto simp: updateTask_def validateDueDate_same_day [OF assms] error_code_def
          authorizeTaskOperation_def forbidden_def
          split: sum.splits option.splits if_splits)
  from TaskRepository_update_code [OF r e] show False
    by (simp add: isNaN_getTime_def)
qed

subsection \<open>Unparseable due dates in the validator\<close>

lemma validateCreate_unparseable:
  "validateCreate (c\<lparr>ITaskCreate.due_date := Some InvalidDate\<rparr>) =
     Inl (if ITaskCreate.user_id c = 0 then
            badRequest ''User ID is required'' ''USER_ID_REQUIRED''
          else if trim (ITaskCreate.title c) = [] then
            badRequest ''Task title is required'' ''INVALID_TITLE''
          else if length (ITaskCreate.title c) > 100 then
            badRequest ''Task title must be 100 characters or less'' ''INVALID_TITLE_LENGTH''
          else badRequest ''Invalid due date format'' ''INVALID_DUE_DATE'')"
proof -
  have "ITaskCreate.title c = [] \<Longrightarrow> trim (ITaskCreate.title c) = []"
    by (simp add: trim_def)
  then show ?thesis
    unfolding validateCreate_def by (auto simp: isNaN_getTime_def)
qed

lemma validateUpdate_unparseable:
  "validateUpdate (u\<lparr>ITaskUpdate.due_date := Some InvalidDate\<rparr>) =
     Inl (case ITaskUpdate.title u of
            None \<Rightarrow> badRequest ''Invalid due date format'' ''INVALID_DUE_DATE''
          | Some t \<Rightarrow>
              if trim t = [] then badRequest ''Task title cannot be empty'' ''INVALID_TITLE''
              else if length t > 100 then
                badRequest ''Task title must be 100 characters or less'' ''INVALID_TITLE_LENGTH''
              else badRequest ''Invalid due date format'' ''INVALID_DUE_DATE'')"
  unfolding validateUpdate_def no_keys_def
  by (simp add: isNaN_getTime_def split: option.splits)

subsection \<open>The due-soon filter at a fixed time\<close>

lemma dueSoon_filter_fixed:
  "dueSoon_filter (fixed_clock now) k cutoff ts =
     filter (\<lambda>t. case ITaskCreate.due_date t of
                   None \<Rightarrow> False
                 | Some d \<Rightarrow> ITask.status t \<noteq> COMPLETED \<and> date_le d cutoff \<and>
                              date_ge d (TimeValue now)) ts"
  by (induction ts arbitrary: k) (auto simp: fixed_clock_def split: option.splits)


lemma overdue_is_spec: "overdue (TimeValue now) = overdue_spec now"
  by (auto simp: fun_eq_iff overdue_def overdue_spec_def split: option.splits Date.splits)

subsection \<open>Updating a user row\<close>


lemma assign_varchar_None [simp]: "assign_varchar m None = Some None"
  by (simp add: assign_varchar_def)

lemma set_user_columns_simps [simp]:
  "IUser.user_id (set_user_columns n e r now u) = IUser.user_id u"
  "IUser.password_hash (set_user_columns n e r now u) = IUser.password_hash u"
  "IUser.created_at (set_user_columns n e r now u) = IUser.created_at u"
  "IUser.role (set_user_columns n e None now u) = IUser.role u"
  "IUser.username (set_user_columns (Some s) e r now u) = s"
  "IUser.email (set_user_columns n (Some s) r now u) = s"
  by (simp_all add: set_user_columns_def)

lemma truthy_truthy [simp]: "truthy (truthy s) = truthy s"
  by (simp add: truthy_def split: option.splits)

lemma strip_role_simps [simp]:
  "truthy (Partial_IUser.role (strip_role False ud)) = None"
  "Partial_IUser.username (strip_role a ud) = Partial_IUser.username ud"
  "Partial_IUser.email (strip_role a ud) = Partial_IUser.email ud"
  by (simp_all add: strip_role_def truthy_def)

lemma effective_update_simps [simp]:
  "truthy (Partial_IUser.username (effective_update ud)) = truthy (Partial_IUser.username ud)"
  "truthy (Partial_IUser.email (effective_update ud)) = truthy (Partial_IUser.email ud)"
  "truthy (Partial_IUser.role (effective_update ud)) = None"
  by (simp_all add: effective_update_def truthy_def split: option.splits)







subsection \<open>The example data, evaluated\<close>

lemmas example_defs =
  example_db_def example_row_def example_user_def example_now_def example_zone_def
  example_payload_def example_created_row_def example_update_def example_bcrypt_def
  example_jwt_def example_user_update_def example_updated_user_def example_dst_db_def
  example_dst_now_def example_hash_update_def
  msPerDay_def maxTime_def

lemma example_findById_1:
  "TaskRepository_findById example_db 1 =
     Some (fromDatabaseRow (example_row 1 1 1700086400000 IN_PROGRESS))"
  by (simp add: TaskRepository_findById_def example_db_def example_row_def)

lemma example_findByUserId:
  "map ITask.task_id (TaskRepository_findByUserId example_db 1) = [6, 7, 5, 4, 1, 2, 3]"
  by (simp add: TaskRepository_findByUserId_def order_key_def example_db_def example_row_def)

lemma example_password_strength:
  "validatePasswordStrength ''short1'' =
     Inl (badRequest ''Password must be at least 8 characters long'' ''PASSWORD_TOO_SHORT'')"
  "validatePasswordStrength ''alllowercase1!'' =
     Inl (badRequest ''Password must contain at least one uppercase letter''
            ''PASSWORD_NEEDS_UPPERCASE'')"
  "validatePasswordStrength ''ALLUPPERCASE1!'' =
     Inl (badRequest ''Password must contain at least one lowercase letter''
            ''PASSWORD_NEEDS_LOWERCASE'')"
  "validatePasswordStrength ''NoDigitsHere!'' =
     Inl (badRequest ''Password must contain at least one number'' ''PASSWORD_NEEDS_NUMBER'')"
  "validatePasswordStrength ''NoSpecial123'' =
     Inl (badRequest ''Password must contain at least one special character''
            ''PASSWORD_NEEDS_SPECIAL'')"
  "validatePasswordStrength ''Valid123!'' = Inr True"
  by (simp_all add: validatePasswordStrength_def in_range_def special_characters_def)

section \<open>Claims about the task lifecycle service\<close>

text \<open>
  Claim C1. An update, a delete or a status change of an existing task by a caller who
  is not the task's owner fails with the typed Forbidden error (status 403, code
  \<open>FORBIDDEN\<close>) and leaves the database as it was: it neither succeeds nor returns the
  not-found value. The service passes no admin flag to \<open>authorizeTaskOperation\<close>, so the
  statement needs no assumption about the caller's role and covers every caller who is
  neither owner nor admin.
\<close>

theorem non_owner_is_forbidden:
  assumes "TaskRepository_findById db taskId = Some task"
    and "ITaskCreate.user_id task \<noteq> callerId"
  shows "updateTask z now db taskId taskData callerId =
           (Inl (forbidden ''Not authorized to perform this action on this task''
                   ''FORBIDDEN''), db)
       \<and> deleteTask db taskId callerId =
           (Inl (forbidden ''Not authorized to perform this action on this task''
                   ''FORBIDDEN''), db)
       \<and> changeTaskStatus db taskId st callerId =
           (Inl (forbidden ''Not authorized to perform this action on this task''
                   ''FORBIDDEN''), db)
       \<and> code (forbidden ''Not authorized to perform this action on this task''
                 ''FORBIDDEN'') = ''FORBIDDEN''
       \<and> statusCode (forbidden ''Not authorized to perform this action on this task''
                       ''FORBIDDEN'') = 403"
  using assms
  by (simp add: updateTask_def deleteTask_def changeTaskStatus_def
      authorizeTaskOperation_def forbidden_def)

text \<open>
  In the example database task 1 belongs to user 1; user 2 (an admin, as it happens)
  is refused all three operations.
\<close>

theorem non_owner_is_forbidden_witness:
  "TaskRepository_findById example_db 1 =
     Some (fromDatabaseRow (example_row 1 1 1700086400000 IN_PROGRESS))
   \<and> ITaskCreate.user_id (fromDatabaseRow (example_row 1 1 1700086400000 IN_PROGRESS)) \<noteq> 2
   \<and> updateTask example_zone example_now example_db 1 example_update 2 =
       (Inl (forbidden ''Not authorized to perform this action on this task''
               ''FORBIDDEN''), example_db)
   \<and> deleteTask example_db 1 2 =
       (Inl (forbidden ''Not authorized to perform this action on this task''
               ''FORBIDDEN''), example_db)
   \<and> changeTaskStatus example_db 1 ''completed'' 2 =
       (Inl (forbidden ''Not authorized to perform this action on this task''
               ''FORBIDDEN''), example_db)"
proof -
  have other: "ITaskCreate.user_id (fromDatabaseRow (example_row 1 1 1700086400000 IN_PROGRESS)) \<noteq> 2"
    by (simp add: example_row_def)
  from non_owner_is_forbidden [OF example_findById_1 other, where z = example_zone
      and now = example_now and taskData = example_update and st = "''completed''"]
    example_findById_1 other
  show ?thesis by simp
qed

text \<open>
  Claim C2. Whenever a create call succeeds, the task it returns has status
  \<open>pending\<close>, and so has the row it stored: the table grows by exactly one row, that
  row has status \<open>pending\<close>, it is the returned task, and looking the returned id up
  finds it. The payload is any extension of \<open>ITaskCreate\<close>, so it may carry a status
  field of any value (as an \<open>ITask\<close>-shaped payload does); the insert never reads it.
\<close>

theorem created_task_is_pending:
  assumes "createTask z now db taskData = (Inr task, db')"
  shows "ITask.status task = PENDING
       \<and> (\<exists>row. tasks db' = tasks db @ [row] \<and> TaskRow.status row = PENDING \<and>
                 fromDatabaseRow row = task)
       \<and> TaskRepository_findById db' (ITask.task_id task) = Some task"
proof -
  from assms have r: "TaskRepository_create z db taskData = (Inr task, db')"
    by (auto simp: createTask_def split: option.splits sum.splits)
  then obtain row where ins: "insert_task z db taskData PENDING = (Some row, db')"
    and t: "task = fromDatabaseRow row"
    by (auto simp: TaskRepository_create_def split: sum.splits option.splits prod.splits)
  from ins have row: "TaskRow.status row = PENDING" "TaskRow.task_id row = tasks_task_id_seq db"
    and db': "tasks db' = tasks db @ [row]"
    and fresh: "tasks_task_id_seq db \<notin> TaskRow.task_id ` set (tasks db)"
    by (auto simp: insert_task_def Let_def split: option.splits if_splits)
  from fresh have "filter (\<lambda>r. TaskRow.task_id r = tasks_task_id_seq db) (tasks db) = []"
    by (auto simp: filter_empty_conv image_iff)
  with row db' t show ?thesis
    by (simp add: TaskRepository_findById_def)
qed

text \<open>
  In the example the payload asks for status \<open>completed\<close> (and for id 77); the stored
  and returned task has status \<open>pending\<close> and the next id of the sequence.
\<close>

theorem created_task_is_pending_witness:
  "ITask.status example_payload = COMPLETED
   \<and> createTask example_zone example_now example_db example_payload =
       (Inr (fromDatabaseRow example_created_row),
        example_db\<lparr>tasks := tasks example_db @ [example_created_row],
                     tasks_task_id_seq := 10\<rparr>)
   \<and> ITask.status (fromDatabaseRow example_created_row) = PENDING
   \<and> TaskRepository_findById
        (example_db\<lparr>tasks := tasks example_db @ [example_created_row],
                      tasks_task_id_seq := 10\<rparr>)
        (ITask.task_id (fromDatabaseRow example_created_row)) =
       Some (fromDatabaseRow example_created_row)"
proof -
  have run: "createTask example_zone example_now example_db example_payload =
       (Inr (fromDatabaseRow example_created_row),
        example_db\<lparr>tasks := tasks example_db @ [example_created_row],
                     tasks_task_id_seq := 10\<rparr>)"
    by (simp add: createTask_def validateDueDate_def setHours0_def TimeClip_def date_lt.simps
        TaskRepository_create_def validateCreate_def trim_def is_white_space_def
        isNaN_getTime_def insert_task_def assign_date_def pg_date_def pg_varchar_def
        pg_text_def pg_text_opt_def LocalTime_def UTC_def Day_def msPerDay_def maxTime_def
        fk_ok_def Let_def example_defs)
  from created_task_is_pending [OF run] run show ?thesis
    by (simp add: example_payload_def)
qed

text \<open>
  Claim C3, as amended. The due date of a payload is compared with the current day at
  floor-of-day granularity, both sides cut to the midnight that begins their local
  calendar day. A create or update call whose due date falls on the current local day
  never fails with \<open>INVALID_DUE_DATE\<close>, whatever else happens to it. When the midnights
  that begin the previous and the current local day are representable dates and the
  first lies before the second, a create call whose due date falls on the previous local
  day fails with \<open>INVALID_DUE_DATE\<close>, and so does an update call of a task that exists
  and that the caller owns. The condition on the midnights holds in every zone of fixed
  offset when the clock reads an instant at least two days inside the range of \<open>Date\<close>.
  (The claim as stated promises \<open>INVALID_DUE_DATE\<close> for every update call; the lookup and
  the ownership check come first.)
\<close>

theorem due_date_floor_of_day:
  "(local_day z y = local_day z now - 1 \<and> midnights_in_order z now \<longrightarrow>
      createTask z now db (taskData\<lparr>ITaskCreate.due_date := Some (TimeValue y)\<rparr>) =
        (Inl (badRequest ''Due date cannot be in the past'' ''INVALID_DUE_DATE''), db))
   \<and> (local_day z y = local_day z now - 1 \<and> midnights_in_order z now \<and>
      TaskRepository_findById db taskId = Some task \<and> ITaskCreate.user_id task = callerId \<longrightarrow>
      updateTask z now db taskId (upd\<lparr>ITaskUpdate.due_date := Some (TimeValue y)\<rparr>) callerId =
        (Inl (badRequest ''Due date cannot be in the past'' ''INVALID_DUE_DATE''), db))
   \<and> (local_day z x = local_day z now \<longrightarrow>
      error_code (fst (createTask z now db
         (taskData\<lparr>ITaskCreate.due_date := Some (TimeValue x)\<rparr>))) \<noteq> Some ''INVALID_DUE_DATE'')
   \<and> (local_day z x = local_day z now \<longrightarrow>
      error_code (fst (updateTask z now db anyTaskId
         (upd\<lparr>ITaskUpdate.due_date := Some (TimeValue x)\<rparr>) anyCallerId)) \<noteq>
        Some ''INVALID_DUE_DATE'')
   \<and> (\<bar>now\<bar> \<le> maxTime - 2 * msPerDay \<longrightarrow> midnights_in_order (fixed_zone c) now)"
proof (intro conjI impI)
  assume a: "local_day z y = local_day z now - 1 \<and> midnights_in_order z now"
  then show "createTask z now db (taskData\<lparr>ITaskCreate.due_date := Some (TimeValue y)\<rparr>) =
           (Inl (badRequest ''Due date cannot be in the past'' ''INVALID_DUE_DATE''), db)"
    by (simp add: createTask_def validateDueDate_previous_day)
next
  assume a: "local_day z y = local_day z now - 1 \<and> midnights_in_order z now \<and>
      TaskRepository_findById db taskId = Some task \<and> ITaskCreate.user_id task = callerId"
  then show "updateTask z now db taskId
            (upd\<lparr>ITaskUpdate.due_date := Some (TimeValue y)\<rparr>) callerId =
           (Inl (badRequest ''Due date cannot be in the past'' ''INVALID_DUE_DATE''), db)"
    by (simp add: updateTask_def authorizeTaskOperation_def validateDueDate_previous_day)
next
  assume a: "local_day z x = local_day z now"
  then show "error_code (fst (createTask z now db
            (taskData\<lparr>ITaskCreate.due_date := Some (TimeValue x)\<rparr>))) \<noteq>
           Some ''INVALID_DUE_DATE''"
    by (rule createTask_current_day_code)
next
  assume a: "local_day z x = local_day z now"
  then show "error_code (fst (updateTask z now db anyTaskId
            (upd\<lparr>ITaskUpdate.due_date := Some (TimeValue x)\<rparr>) anyCallerId)) \<noteq>
           Some ''INVALID_DUE_DATE''"
    by (rule updateTask_current_day_code)
next
  assume "\<bar>now\<bar> \<le> maxTime - 2 * msPerDay"
  then show "midnights_in_order (fixed_zone c) now"
    by (rule fixed_zone_midnights_in_order)
qed

text \<open>
  The example zone has daylight saving, and the condition on the midnights holds in it
  at the example instant, as it does in the zone one hour east of UTC. At that instant, one day earlier is on the previous local day and ten hours
  earlier is still on the current local day. User 1 owns task 1: her update with
  yesterday's date is refused, and her update with today's date passes the check and is
  stored, the due date cut to the day. Her create with yesterday's date is refused also
  in a database that holds no task at all, and her create with today's date succeeds.
  On 2023-10-29, the local day of 25 hours on which daylight saving ends, a due date of
  00:30 is on the current day at 23:30, exactly 24 hours later, and is accepted.
\<close>

theorem due_date_floor_of_day_witness:
  "local_day example_zone (example_now - msPerDay) = local_day example_zone example_now - 1
   \<and> local_day example_zone (example_now - 36000000) = local_day example_zone example_now
   \<and> midnights_in_order example_zone example_now
   \<and> \<bar>example_now\<bar> \<le> maxTime - 2 * msPerDay
   \<and> midnights_in_order (fixed_zone 3600000) example_now
   \<and> TaskRepository_findById example_db 1 =
       Some (fromDatabaseRow (example_row 1 1 1700086400000 IN_PROGRESS))
   \<and> ITaskCreate.user_id (fromDatabaseRow (example_row 1 1 1700086400000 IN_PROGRESS)) = 1
   \<and> createTask example_zone example_now (example_db\<lparr>tasks := []\<rparr>)
        (example_payload\<lparr>ITaskCreate.due_date := Some (TimeValue (example_now - msPerDay))\<rparr>) =
       (Inl (badRequest ''Due date cannot be in the past'' ''INVALID_DUE_DATE''),
        example_db\<lparr>tasks := []\<rparr>)
   \<and> updateTask example_zone example_now example_db 1
        (example_update\<lparr>ITaskUpdate.due_date := Some (TimeValue (example_now - msPerDay))\<rparr>) 1 =
       (Inl (badRequest ''Due date cannot be in the past'' ''INVALID_DUE_DATE''), example_db)
   \<and> error_code (fst (createTask example_zone example_now (example_db\<lparr>tasks := []\<rparr>)
        (example_payload\<lparr>ITaskCreate.due_date := Some (TimeValue (example_now - 36000000))\<rparr>))) =
       None
   \<and> map_option ITaskCreate.due_date
       (projr (fst (updateTask example_zone example_now example_db 1
          (example_update\<lparr>ITaskUpdate.due_date := Some (TimeValue (example_now - 36000000))\<rparr>)
          1))) =
       Some (Some (TimeValue 1699916400000))
   \<and> local_day example_zone (1698618600000 - msPerDay) = local_day example_zone 1698618600000
   \<and> error_code (fst (createTask example_zone 1698618600000 example_db
        (example_payload\<lparr>ITaskCreate.due_date :=
           Some (TimeValue (1698618600000 - msPerDay))\<rparr>))) = None"
proof -
  have prev: "local_day example_zone (example_now - msPerDay) =
                local_day example_zone example_now - 1"
    by (simp add: local_day_def LocalTime_def Day_def example_now_def example_zone_def
        msPerDay_def)
  have same: "local_day example_zone (example_now - 36000000) =
                local_day example_zone example_now"
    by (simp add: local_day_def LocalTime_def Day_def example_now_def example_zone_def
        msPerDay_def)
  have mid: "midnights_in_order example_zone example_now"
    by (simp add: midnights_in_order_def midnight_def local_day_def LocalTime_def UTC_def
        Day_def example_now_def example_zone_def msPerDay_def maxTime_def)
  have owner: "ITaskCreate.user_id
                 (fromDatabaseRow (example_row 1 1 1700086400000 IN_PROGRESS)) = 1"
    by (simp add: example_row_def)
  have made: "error_code (fst (createTask example_zone example_now (example_db\<lparr>tasks := []\<rparr>)
        (example_payload\<lparr>ITaskCreate.due_date := Some (TimeValue (example_now - 36000000))\<rparr>))) =
       None"
    by (simp add: createTask_def validateDueDate_def setHours0_def error_code_def TimeClip_def
        TaskRepository_create_def validateCreate_def trim_def is_white_space_def
        isNaN_getTime_def insert_task_def assign_date_def pg_date_def pg_varchar_def
        pg_text_def pg_text_opt_def LocalTime_def UTC_def Day_def msPerDay_def maxTime_def
        fk_ok_def Let_def example_defs)
  have stored: "map_option ITaskCreate.due_date
       (projr (fst (updateTask example_zone example_now example_db 1
          (example_update\<lparr>ITaskUpdate.due_date := Some (TimeValue (example_now - 36000000))\<rparr>)
          1))) =
       Some (Some (TimeValue 1699916400000))"
    by (simp add: updateTask_def TaskRepository_findById_def authorizeTaskOperation_def
        validateDueDate_def setHours0_def TaskRepository_update_def validateUpdate_def
        no_keys_def trim_def is_white_space_def isNaN_getTime_def update_task_def
        set_columns_def assign_date_def assign_varchar_def pg_date_def pg_varchar_def pg_text_def
        pg_text_opt_def fk_ok_def LocalTime_def UTC_def Day_def msPerDay_def maxTime_def
        TimeClip_def fromDatabaseRow_def Let_def example_defs)
  from due_date_floor_of_day [of example_zone "example_now - msPerDay" example_now
      "example_db\<lparr>tasks := []\<rparr>" example_payload 1
      "fromDatabaseRow (example_row 1 1 1700086400000 IN_PROGRESS)" 1 example_update
      "example_now - 36000000" 1 1 3600000]
    prev same mid
  have c: "createTask example_zone example_now (example_db\<lparr>tasks := []\<rparr>)
        (example_payload\<lparr>ITaskCreate.due_date := Some (TimeValue (example_now - msPerDay))\<rparr>) =
       (Inl (badRequest ''Due date cannot be in the past'' ''INVALID_DUE_DATE''),
        example_db\<lparr>tasks := []\<rparr>)"
    by simp
  have clock: "\<bar>example_now\<bar> \<le> maxTime - 2 * msPerDay"
    by (simp add: example_now_def maxTime_def msPerDay_def)
  from due_date_floor_of_day [of example_zone "example_now - msPerDay" example_now
      example_db example_payload 1
      "fromDatabaseRow (example_row 1 1 1700086400000 IN_PROGRESS)" 1 example_update
      "example_now - 36000000" 1 1 3600000]
    prev same mid example_findById_1 owner clock
  have fixed: "midnights_in_order (fixed_zone 3600000) example_now"
    by simp
  from due_date_floor_of_day [of example_zone "example_now - msPerDay" example_now
      example_db example_payload 1
      "fromDatabaseRow (example_row 1 1 1700086400000 IN_PROGRESS)" 1 example_update
      "example_now - 36000000" 1 1 3600000]
    prev same mid example_findById_1 owner
  have u: "updateTask example_zone example_now example_db 1
        (example_update\<lparr>ITaskUpdate.due_date := Some (TimeValue (example_now - msPerDay))\<rparr>) 1 =
       (Inl (badRequest ''Due date cannot be in the past'' ''INVALID_DUE_DATE''), example_db)"
    by simp
  have long_day: "local_day example_zone (1698618600000 - msPerDay) =
                    local_day example_zone 1698618600000"
    by (simp add: local_day_def LocalTime_def Day_def example_zone_def msPerDay_def)
  have long_made: "error_code (fst (createTask example_zone 1698618600000 example_db
        (example_payload\<lparr>ITaskCreate.due_date :=
           Some (TimeValue (1698618600000 - msPerDay))\<rparr>))) = None"
    by (simp add: createTask_def validateDueDate_def setHours0_def error_code_def TimeClip_def
        TaskRepository_create_def validateCreate_def trim_def is_white_space_def
        isNaN_getTime_def insert_task_def assign_date_def pg_date_def pg_varchar_def
        pg_text_def pg_text_opt_def LocalTime_def UTC_def Day_def msPerDay_def maxTime_def
        fk_ok_def Let_def example_defs)
  from prev same mid clock fixed example_findById_1 owner c u made stored long_day long_made
  show ?thesis by simp
qed

text \<open>
  The claim as stated fails for an update of a task that does not exist: with a due
  date on the previous day the call returns the not-found value, not an error.
\<close>

theorem due_date_update_missing_task:
  "local_day example_zone (example_now - msPerDay) = local_day example_zone example_now - 1
   \<and> TaskRepository_findById example_db 99 = None
   \<and> updateTask example_zone example_now example_db 99
        (example_update\<lparr>ITaskUpdate.due_date := Some (TimeValue (example_now - msPerDay))\<rparr>) 1 =
       (Inr None, example_db)"
  by (simp add: local_day_def LocalTime_def Day_def updateTask_def TaskRepository_findById_def
      example_db_def example_row_def example_now_def example_zone_def msPerDay_def)



text \<open>
  Claim C5. For every owner, \<open>getOverdueTasks\<close> returns exactly the owner's tasks that
  have a due date strictly before \<open>now\<close> and a status other than \<open>completed\<close>, in the
  order the repository lists them.
\<close>

theorem overdue_tasks_exact:
  "getOverdueTasks db now userId =
     filter (overdue_spec now) (TaskRepository_findByUserId db userId)
   \<and> set (getOverdueTasks db now userId) =
       {t \<in> fromDatabaseRow ` set (tasks db).
          ITaskCreate.user_id t = userId \<and> overdue_spec now t}"
proof -
  have eq: "getOverdueTasks db now userId =
              filter (overdue_spec now) (TaskRepository_findByUserId db userId)"
    by (simp add: getOverdueTasks_def overdue_is_spec)
  show ?thesis
    unfolding eq by (auto simp: set_findByUserId)
qed

text \<open>
  Again as in the service's test: of the tasks of user 1 due 1 and 7 days ago, one due
  in the future and one due yesterday but completed, the two pending past ones are
  returned, the earlier due date first.
\<close>

theorem overdue_tasks_exact_witness:
  "getOverdueTasks example_db example_now 1 =
     filter (overdue_spec example_now) (TaskRepository_findByUserId example_db 1)
   \<and> map ITask.task_id (getOverdueTasks example_db example_now 1) = [6, 5]"
proof -
  have run: "map ITask.task_id (getOverdueTasks example_db example_now 1) = [6, 5]"
    by (simp add: getOverdueTasks_def overdue_def TaskRepository_findByUserId_def
        order_key_def fromDatabaseRow_def TimeClip_def example_defs)
  from overdue_tasks_exact [of example_db example_now 1] run
  show ?thesis by simp
qed

text \<open>
  Claim C10. At a fixed evaluation time, and for any user and any number of days, no
  task is returned both by \<open>getTasksDueSoon\<close> and by \<open>getOverdueTasks\<close>: the first asks
  for a due date at or after \<open>now\<close>, the second for one strictly before it.
\<close>

theorem due_soon_overdue_disjoint:
  "set (getTasksDueSoon z db (fixed_clock now) userId days) \<inter>
     set (getOverdueTasks db now userId) = {}"
  by (auto simp: getTasksDueSoon_def dueSoon_filter_fixed getOverdueTasks_def overdue_def
      date_ge_def split: option.splits Date.splits elim!: date_le.elims date_lt.elims)

theorem due_soon_overdue_disjoint_witness:
  "map ITask.task_id (getTasksDueSoon example_zone example_db (fixed_clock example_now) 1 7) = [1, 2]
   \<and> map ITask.task_id (getOverdueTasks example_db example_now 1) = [6, 5]
   \<and> set (getTasksDueSoon example_zone example_db (fixed_clock example_now) 1 7) \<inter>
       set (getOverdueTasks example_db example_now 1) = {}"
proof -
  have soon: "map ITask.task_id
      (getTasksDueSoon example_zone example_db (fixed_clock example_now) 1 7) = [1, 2]"
    by (simp add: getTasksDueSoon_def TaskRepository_findByUserId_def order_key_def
        fromDatabaseRow_def setDate_plus_def TimeClip_def date_ge_def fixed_clock_def
        LocalTime_def UTC_def msPerDay_def maxTime_def example_defs)
  have late: "map ITask.task_id (getOverdueTasks example_db example_now 1) = [6, 5]"
    by (simp add: getOverdueTasks_def overdue_def TaskRepository_findByUserId_def
        order_key_def fromDatabaseRow_def TimeClip_def example_defs)
  from due_soon_overdue_disjoint [of example_zone example_db example_now 1 7] soon late
  show ?thesis by simp
qed

section \<open>Claims about the task entity validator\<close>

text \<open>
  Claim C9, as amended. For every create payload whose due date is present but not a
  parseable date (an Invalid Date), \<open>validateCreate\<close> fails with an InvalidInput error
  (status 400); its code is \<open>INVALID_DUE_DATE\<close> when the owner id is present and the title
  is not blank and at most 100 characters long, and otherwise the code of the first of
  these earlier checks that fails. Likewise \<open>validateUpdate\<close> fails with status 400 for
  every update payload with such a due date, with code \<open>INVALID_DUE_DATE\<close> when no title
  is supplied or the supplied title is valid, and with the title's error code otherwise.
\<close>

theorem unparseable_due_date_rejected:
  "error_status (validateCreate (c\<lparr>ITaskCreate.due_date := Some InvalidDate\<rparr>)) = Some 400
   \<and> validateCreate (c\<lparr>ITaskCreate.due_date := Some InvalidDate\<rparr>) =
       Inl (if ITaskCreate.user_id c = 0 then
              badRequest ''User ID is required'' ''USER_ID_REQUIRED''
            else if trim (ITaskCreate.title c) = [] then
              badRequest ''Task title is required'' ''INVALID_TITLE''
            else if length (ITaskCreate.title c) > 100 then
              badRequest ''Task title must be 100 characters or less'' ''INVALID_TITLE_LENGTH''
            else badRequest ''Invalid due date format'' ''INVALID_DUE_DATE'')
   \<and> error_status (validateUpdate (u\<lparr>ITaskUpdate.due_date := Some InvalidDate\<rparr>)) = Some 400
   \<and> validateUpdate (u\<lparr>ITaskUpdate.due_date := Some InvalidDate\<rparr>) =
       Inl (case ITaskUpdate.title u of
              None \<Rightarrow> badRequest ''Invalid due date format'' ''INVALID_DUE_DATE''
            | Some t \<Rightarrow>
                if trim t = [] then badRequest ''Task title cannot be empty'' ''INVALID_TITLE''
                else if length t > 100 then
                  badRequest ''Task title must be 100 characters or less''
                    ''INVALID_TITLE_LENGTH''
                else badRequest ''Invalid due date format'' ''INVALID_DUE_DATE'')"
proof (intro conjI)
  show "error_status (validateCreate (c\<lparr>ITaskCreate.due_date := Some InvalidDate\<rparr>)) = Some 400"
    unfolding validateCreate_unparseable
    by (simp add: error_status_def statusCode_badRequest)
  show "error_status (validateUpdate (u\<lparr>ITaskUpdate.due_date := Some InvalidDate\<rparr>)) = Some 400"
    unfolding validateUpdate_unparseable
    by (simp add: error_status_def statusCode_badRequest split: option.splits)
qed (rule validateCreate_unparseable validateUpdate_unparseable)+

text \<open>
  With the otherwise valid example payloads, an Invalid Date is answered with
  \<open>INVALID_DUE_DATE\<close> by both validators.
\<close>

theorem unparseable_due_date_rejected_witness:
  "validateCreate (example_payload\<lparr>ITaskCreate.due_date := Some InvalidDate\<rparr>) =
     Inl (badRequest ''Invalid due date format'' ''INVALID_DUE_DATE'')
   \<and> validateUpdate (example_update\<lparr>ITaskUpdate.due_date := Some InvalidDate\<rparr>) =
       Inl (badRequest ''Invalid due date format'' ''INVALID_DUE_DATE'')"
  using unparseable_due_date_rejected [of example_payload example_update]
  by (simp add: example_payload_def example_update_def trim_def is_white_space_def)

text \<open>
  The claim as stated, code \<open>INVALID_DUE_DATE\<close> for every such input, fails when an
  earlier check fails first: a payload with a blank title and an Invalid Date is
  rejected with \<open>INVALID_TITLE\<close>.
\<close>

theorem unparseable_due_date_blank_title:
  "validateCreate
     (example_payload\<lparr>ITaskCreate.title := ''   '', ITaskCreate.due_date := Some InvalidDate\<rparr>) =
     Inl (badRequest ''Task title is required'' ''INVALID_TITLE'')
   \<and> code (badRequest ''Task title is required'' ''INVALID_TITLE'') \<noteq> ''INVALID_DUE_DATE''"
  by (simp add: validateCreate_def trim_def is_white_space_def example_payload_def
      badRequest_def)

section \<open>Claims about the user account service\<close>

text \<open>
  Claim C6. A login with an email that no user has and a login with the email of an
  existing user but a password whose hash check fails end in the same result: the
  typed error with message \<open>Invalid credentials\<close>, status 401 and code
  \<open>INVALID_CREDENTIALS\<close>. The two failures cannot be told apart by their results.
\<close>

theorem login_failures_identical:
  assumes "UserRepository_findByEmail db (IUserLogin.email unknown) = None"
    and "UserRepository_findByEmail db (IUserLogin.email known) = Some u"
    and "\<not> bcrypt_compare bc (IUserLogin.password known) (IUser.password_hash u)"
  shows "login bc jwt db unknown = login bc jwt db known
       \<and> login bc jwt db unknown =
           Inl (unauthorized ''Invalid credentials'' ''INVALID_CREDENTIALS'')
       \<and> code (unauthorized ''Invalid credentials'' ''INVALID_CREDENTIALS'') =
           ''INVALID_CREDENTIALS''"
  using assms by (simp add: login_def unauthorized_def)

theorem login_failures_identical_witness:
  "UserRepository_findByEmail example_db ''nobody@example.com'' = None
   \<and> UserRepository_findByEmail example_db ''alice@example.com'' =
       Some (example_user 1 ''alice'' ''Alice123!'' ''user'')
   \<and> \<not> bcrypt_compare example_bcrypt ''wrong''
         (IUser.password_hash (example_user 1 ''alice'' ''Alice123!'' ''user''))
   \<and> login example_bcrypt example_jwt example_db
        \<lparr>IUserLogin.email = ''nobody@example.com'', IUserLogin.password = ''Alice123!''\<rparr> =
      login example_bcrypt example_jwt example_db
        \<lparr>IUserLogin.email = ''alice@example.com'', IUserLogin.password = ''wrong''\<rparr>
   \<and> login example_bcrypt example_jwt example_db
        \<lparr>IUserLogin.email = ''nobody@example.com'', IUserLogin.password = ''Alice123!''\<rparr> =
      Inl (unauthorized ''Invalid credentials'' ''INVALID_CREDENTIALS'')"
proof -
  have a: "UserRepository_findByEmail example_db
             (IUserLogin.email \<lparr>IUserLogin.email = ''nobody@example.com'',
                                IUserLogin.password = ''Alice123!''\<rparr>) = None"
    by (simp add: UserRepository_findByEmail_def example_db_def example_user_def)
  have b: "UserRepository_findByEmail example_db
             (IUserLogin.email \<lparr>IUserLogin.email = ''alice@example.com'',
                                IUserLogin.password = ''wrong''\<rparr>) =
           Some (example_user 1 ''alice'' ''Alice123!'' ''user'')"
    by (simp add: UserRepository_findByEmail_def example_db_def example_user_def)
  have c: "\<not> bcrypt_compare example_bcrypt
               (IUserLogin.password \<lparr>IUserLogin.email = ''alice@example.com'',
                                      IUserLogin.password = ''wrong''\<rparr>)
               (IUser.password_hash (example_user 1 ''alice'' ''Alice123!'' ''user''))"
    by (simp add: example_bcrypt_def example_user_def)
  from login_failures_identical [OF a b c, where jwt = example_jwt] a b c
  show ?thesis by auto
qed

text \<open>
  Claim C7, as amended. When the user exists and the current password matches the
  stored hash, a new password equal to the current one (compared as plain text, before
  any hashing) makes \<open>changePassword\<close> fail with \<open>PASSWORD_SAME\<close> provided it passes the
  strength validation. The strength validation is performed first: a new password that
  equals the current one and fails it is rejected with the code of the strength rule it
  breaks, not with \<open>PASSWORD_SAME\<close>. Nothing is written in either case.
\<close>

theorem change_password_same_after_strength:
  assumes "UserRepository_findById db userId = Some u"
    and "bcrypt_compare bc p (IUser.password_hash u)"
  shows "changePassword bc db userId p p =
           (Inl (case validatePasswordStrength p of
                   Inl e \<Rightarrow> e
                 | Inr b \<Rightarrow> badRequest ''New password must be different from current password''
                             ''PASSWORD_SAME''), db)"
  using assms
  by (simp add: changePassword_def validatePassword_def split: sum.splits)

theorem change_password_same_after_strength_witness:
  "UserRepository_findById example_db 1 = Some (example_user 1 ''alice'' ''Alice123!'' ''user'')
   \<and> bcrypt_compare example_bcrypt ''Alice123!''
       (IUser.password_hash (example_user 1 ''alice'' ''Alice123!'' ''user''))
   \<and> validatePasswordStrength ''Alice123!'' = Inr True
   \<and> changePassword example_bcrypt example_db 1 ''Alice123!'' ''Alice123!'' =
       (Inl (badRequest ''New password must be different from current password''
               ''PASSWORD_SAME''), example_db)"
proof -
  have found: "UserRepository_findById example_db 1 =
                 Some (example_user 1 ''alice'' ''Alice123!'' ''user'')"
    by (simp add: UserRepository_findById_def example_db_def example_user_def)
  have match: "bcrypt_compare example_bcrypt ''Alice123!''
                 (IUser.password_hash (example_user 1 ''alice'' ''Alice123!'' ''user''))"
    by (simp add: example_bcrypt_def example_user_def)
  have strong: "validatePasswordStrength ''Alice123!'' = Inr True"
    by (simp add: validatePasswordStrength_def in_range_def special_characters_def)
  from change_password_same_after_strength [OF found match] found match strong
  show ?thesis by simp
qed

text \<open>
  The claim as stated puts the same-password check before the strength validation. The
  code has them the other way round: user 3, whose stored password is \<open>weak\<close>, asks to
  change it to \<open>weak\<close> and is told that the password is too short.
\<close>

theorem change_password_weak_same:
  "UserRepository_findById example_db 3 = Some (example_user 3 ''carol'' ''weak'' ''user'')
   \<and> bcrypt_compare example_bcrypt ''weak''
       (IUser.password_hash (example_user 3 ''carol'' ''weak'' ''user''))
   \<and> changePassword example_bcrypt example_db 3 ''weak'' ''weak'' =
       (Inl (badRequest ''Password must be at least 8 characters long''
               ''PASSWORD_TOO_SHORT''), example_db)
   \<and> code (badRequest ''Password must be at least 8 characters long''
             ''PASSWORD_TOO_SHORT'') \<noteq> ''PASSWORD_SAME''"
  by (simp add: changePassword_def validatePassword_def validatePasswordStrength_def
      UserRepository_findById_def example_db_def example_user_def example_bcrypt_def
      badRequest_def)




end
